theory Spec2Isabelle
  imports Complex_Main "HOL-Library.Sublist" "HOL-Library.Char_ord" "HOL-Library.Multiset"
begin

section \<open>Conventions of the embedding\<close>

text \<open>
  The decision layer of \<^verbatim>\<open>services/pest_detection_service.py\<close> and the root
  endpoint of \<^verbatim>\<open>routers/pest_detection.py\<close>, as HOL functions.

  \<^item> A probability vector (\<^verbatim>\<open>predictions\<close>, a one-dimensional NumPy array) is a
    \<open>real list\<close>. Confidences are exact reals: comparisons against the thresholds and
    the order of two confidences are as in the code, the rounding error of float
    sums and differences and the values NaN and infinity are outside the model.
  \<^item> Python strings are \<open>string\<close>; case mapping and whitespace cover ASCII, which is
    all the labels of the source use.
  \<^item> \<^verbatim>\<open>np.argsort\<close> is a parameter \<open>np_argsort\<close> of every function that sorts. The
    source calls it with its default kind, which is not stable: it returns some
    permutation of the indices that sorts the vector, and which of two equal entries
    comes first is left to NumPy. The statements hold for every such function.
  \<^item> An exception is a value \<open>Inl e\<close> of a sum type.
  \<^item> A Python dict with optional keys is a record with \<open>option\<close> fields.
\<close>

datatype py_error = IndexError | ValueError

section \<open>String operations of Python used by the source\<close>

definition is_space :: "char \<Rightarrow> bool" where
  "is_space c = (c \<in> set [CHR '' '', CHR 0x09, CHR 0x0A, CHR 0x0B, CHR 0x0C, CHR 0x0D,
                           CHR 0x1C, CHR 0x1D, CHR 0x1E, CHR 0x1F])"

definition lower_char :: "char \<Rightarrow> char" where
  "lower_char c = (if CHR ''A'' \<le> c \<and> c \<le> CHR ''Z'' then char_of (of_char c + (32::nat)) else c)"

definition upper_char :: "char \<Rightarrow> char" where
  "upper_char c = (if CHR ''a'' \<le> c \<and> c \<le> CHR ''z'' then char_of (of_char c - (32::nat)) else c)"

text \<open>\<^verbatim>\<open>s.lower()\<close>\<close>
definition lower :: "string \<Rightarrow> string" where
  "lower s = map lower_char s"

text \<open>\<^verbatim>\<open>s.capitalize()\<close>: first character upper case, the rest lower case.\<close>
fun capitalize :: "string \<Rightarrow> string" where
  "capitalize [] = []"
| "capitalize (c # cs) = upper_char c # lower cs"

text \<open>\<^verbatim>\<open>sub in s\<close>: \<open>sub\<close> occurs in \<open>s\<close> as a contiguous substring.\<close>
fun contains :: "string \<Rightarrow> string \<Rightarrow> bool" where
  "contains sub [] = (sub = [])"
| "contains sub (c # cs) = (prefix sub (c # cs) \<or> contains sub cs)"

text \<open>
  \<^verbatim>\<open>s.replace(old, new)\<close> for a non-empty \<open>old\<close> (the source only passes string
  literals of length at least 1): every occurrence, left to right, without overlap.
\<close>
function replace :: "string \<Rightarrow> string \<Rightarrow> string \<Rightarrow> string" where
  "replace old new [] = []"
| "replace old new (c # cs) =
     (if old \<noteq> [] \<and> prefix old (c # cs)
      then new @ replace old new (drop (length old) (c # cs))
      else c # replace old new cs)"
  by pat_completeness auto
termination
  by (relation "measure (\<lambda>(old, new, s). length s)") (auto simp: neq_Nil_conv)

text \<open>
  \<^verbatim>\<open>s.split()\<close>: the maximal runs of non-whitespace characters. \<open>cur\<close> is the word
  being read.
\<close>
fun split_acc :: "string \<Rightarrow> string \<Rightarrow> string list" where
  "split_acc cur [] = (if cur = [] then [] else [cur])"
| "split_acc cur (c # cs) =
     (if is_space c then (if cur = [] then split_acc [] cs else cur # split_acc [] cs)
      else split_acc (cur @ [c]) cs)"

definition split :: "string \<Rightarrow> string list" where
  "split s = split_acc [] s"

text \<open>\<^verbatim>\<open>" ".join(ws)\<close>\<close>
fun join_space :: "string list \<Rightarrow> string" where
  "join_space [] = []"
| "join_space [w] = w"
| "join_space (w # ws) = w @ '' '' @ join_space ws"

text \<open>\<^verbatim>\<open>s.strip()\<close>\<close>
definition strip :: "string \<Rightarrow> string" where
  "strip s = rev (dropWhile is_space (rev (dropWhile is_space s)))"

text \<open>\<^verbatim>\<open>str(n)\<close> of a non-negative integer, used by the f-string of the default label.\<close>
definition digit_char :: "nat \<Rightarrow> char" where
  "digit_char d = char_of (48 + d)"

fun show_nat :: "nat \<Rightarrow> string" where
  "show_nat n = (if n < 10 then [digit_char n] else show_nat (n div 10) @ [digit_char (n mod 10)])"

declare show_nat.simps [simp del]

section \<open>Numeric operations\<close>

text \<open>
  \<^verbatim>\<open>round(x, 4)\<close>: Python rounds a float to the nearest multiple of \<open>10\<^sup>-\<^sup>4\<close>, a tie
  going to the even multiple.
\<close>
definition round_half_even :: "real \<Rightarrow> int" where
  "round_half_even x =
     (let f = \<lfloor>x\<rfloor>; d = x - of_int f
      in if d < 1 / 2 then f else if 1 / 2 < d then f + 1 else if even f then f else f + 1)"

definition round4 :: "real \<Rightarrow> real" where
  "round4 x = of_int (round_half_even (x * 10000)) / 10000"

text \<open>
  What is known of \<^verbatim>\<open>np.argsort(predictions)\<close>: the result is a permutation of the
  indices of the vector, and reading the vector along it gives ascending values.
\<close>
definition is_argsort :: "(real list \<Rightarrow> nat list) \<Rightarrow> real list \<Rightarrow> bool" where
  "is_argsort np_argsort p \<longleftrightarrow>
     mset (np_argsort p) = mset [0..<length p] \<and> sorted (map (\<lambda>i. p ! i) (np_argsort p))"

text \<open>\<^verbatim>\<open>np.argsort(predictions)[::-1]\<close>, the variable \<^verbatim>\<open>sorted_indices\<close>.\<close>
definition sorted_indices :: "(real list \<Rightarrow> nat list) \<Rightarrow> real list \<Rightarrow> nat list" where
  "sorted_indices np_argsort p = rev (np_argsort p)"

text \<open>\<^verbatim>\<open>np.argsort(predictions)[-5:][::-1]\<close>, the variable \<^verbatim>\<open>top_indices\<close>.\<close>
definition top_indices :: "(real list \<Rightarrow> nat list) \<Rightarrow> real list \<Rightarrow> nat list" where
  "top_indices np_argsort p = rev (drop (length (np_argsort p) - 5) (np_argsort p))"

text \<open>\<^verbatim>\<open>predictions[top_indices]\<close>, the variable \<^verbatim>\<open>top_confidences\<close>.\<close>
definition top_confidences :: "(real list \<Rightarrow> nat list) \<Rightarrow> real list \<Rightarrow> real list" where
  "top_confidences np_argsort p = map (\<lambda>i. p ! i) (top_indices np_argsort p)"

text \<open>\<^verbatim>\<open>np.max(predictions)\<close>; it raises on an empty array.\<close>
definition np_max :: "real list \<Rightarrow> py_error + real" where
  "np_max p = (if p = [] then Inl ValueError else Inr (Max (set p)))"

text \<open>
  \<^verbatim>\<open>np.partition(predictions, -2)[-2]\<close>: the element at position \<open>n - 2\<close> of the
  sorted array; with fewer than two elements \<^verbatim>\<open>kth\<close> is out of bounds.
\<close>
definition second_largest :: "real list \<Rightarrow> py_error + real" where
  "second_largest p = (if length p < 2 then Inl ValueError else Inr (sort p ! (length p - 2)))"

section \<open>The service\<close>

record service =
  model_present :: bool
  is_loaded :: bool
  num_classes :: nat
  disease_mapping :: "(nat \<times> string) list"

text \<open>
  \<^verbatim>\<open>PestDetectionService.__init__\<close>. \<open>load_ok\<close> is the outcome of reading the model
  file in \<^verbatim>\<open>load_model\<close>, which catches every exception and records the outcome in
  \<^verbatim>\<open>is_loaded\<close>. The constructor has no \<^verbatim>\<open>raise\<close>.
\<close>
definition init_disease_mapping :: "(nat \<times> string) list" where
  "init_disease_mapping =
     [(0, ''Healthy_Leaf''), (1, ''Apple_Scab''), (2, ''Apple_Black_Rot''),
      (3, ''Apple_Cedar_Rust''), (4, ''Cherry_Powdery_Mildew''), (5, ''Corn_Gray_Leaf_Spot''),
      (6, ''Corn_Common_Rust''), (7, ''Corn_Northern_Blight''), (8, ''Grape_Black_Rot''),
      (9, ''Grape_Esca''), (10, ''Grape_Leaf_Blight''), (11, ''Peach_Bacterial_Spot''),
      (12, ''Pepper_Bacterial_Spot''), (13, ''Potato_Early_Blight''),
      (14, ''Potato_Late_Blight''), (15, ''Strawberry_Leaf_Scorch''),
      (16, ''Tomato_Bacterial_Spot''), (17, ''Tomato_Early_Blight''),
      (18, ''Tomato_Late_Blight''), (19, ''Tomato_Leaf_Mold''),
      (20, ''Tomato_Septoria_Leaf_Spot''), (21, ''Tomato_Spider_Mites'')]"

definition init :: "bool \<Rightarrow> service" where
  "init load_ok =
     \<lparr>model_present = load_ok, is_loaded = load_ok, num_classes = 22,
      disease_mapping = init_disease_mapping\<rparr>"

definition is_model_loaded :: "service \<Rightarrow> bool" where
  "is_model_loaded s = (is_loaded s \<and> model_present s)"

text \<open>\<^verbatim>\<open>self.disease_mapping.get(class_id, f"Unknown Disease {class_id}")\<close>\<close>
definition mapping_get :: "service \<Rightarrow> nat \<Rightarrow> string" where
  "mapping_get s class_id =
     (case map_of (disease_mapping s) class_id of
        Some name \<Rightarrow> name
      | None \<Rightarrow> ''Unknown Disease '' @ show_nat class_id)"

definition format_word :: "string \<Rightarrow> string" where
  "format_word word =
     (if lower word \<in> set [''and'', ''or'', ''the'', ''of'', ''in'', ''on'', ''at'', ''to'', ''for'']
      then lower word
      else if CHR ''('' \<in> set word \<or> CHR '')'' \<in> set word then word
      else capitalize word)"

definition clean_disease_name :: "string \<Rightarrow> string" where
  "clean_disease_name raw_name =
     (let cleaned = replace ''_'' '' '' (replace ''___'' '' - '' raw_name);
          cleaned = replace ''(including sour)'' '''' cleaned;
          cleaned = replace ''Two-spotted spider mite'' ''Two-spotted Spider Mite'' cleaned;
          words = split cleaned
      in strip (join_space (map format_word words)))"

section \<open>The decision policy\<close>

text \<open>The result dict of \<^verbatim>\<open>_apply_bias_mitigation\<close>; a key that is absent is \<open>None\<close>.\<close>
record result =
  prediction :: string
  confidence :: real
  status :: string
  alternative_predictions :: "(string \<times> real) list option"
  original_prediction :: "string option"
  result_note :: "string option"

text \<open>The dict of \<^verbatim>\<open>_detect_bias_patterns\<close> when \<^verbatim>\<open>is_biased\<close> is true.\<close>
record bias_check =
  adjusted_prediction :: string
  adjusted_confidence :: real
  reason :: string

definition problematic_predictions :: "string list" where
  "problematic_predictions =
     [''Cherry - Powdery Mildew'', ''Potato - Healthy'', ''Corn (maize) - Northern Leaf Blight'']"

text \<open>\<^verbatim>\<open>any(prob in disease_name for prob in problematic_predictions)\<close>\<close>
definition known_biased :: "string \<Rightarrow> bool" where
  "known_biased disease_name = list_ex (\<lambda>prob. contains prob disease_name) problematic_predictions"

text \<open>
  \<^verbatim>\<open>_get_alternative_predictions\<close>: the entries 1 to 3 of the top predictions, as
  (label, rounded confidence) pairs.
\<close>
definition get_alternative_predictions ::
    "service \<Rightarrow> nat list \<Rightarrow> real list \<Rightarrow> (string \<times> real) list" where
  "get_alternative_predictions s top_idx top_conf =
     map (\<lambda>i. (clean_disease_name (mapping_get s (top_idx ! i)), round4 (top_conf ! i)))
         [1..<min 4 (length top_idx)]"

text \<open>
  The second half of \<^verbatim>\<open>_detect_bias_patterns\<close> (``if any single prediction is too
  dominant''), reached whenever the known-pattern branch has not returned.
\<close>
definition dominance_check ::
    "(real list \<Rightarrow> nat list) \<Rightarrow> service \<Rightarrow> real list \<Rightarrow> string \<Rightarrow> py_error + bias_check option" where
  "dominance_check np_argsort s predictions disease_name =
     (case np_max predictions of
        Inl e \<Rightarrow> Inl e
      | Inr max_confidence \<Rightarrow>
          (case second_largest predictions of
             Inl e \<Rightarrow> Inl e
           | Inr second_max \<Rightarrow>
               if max_confidence > 0.8 \<and> max_confidence - second_max > 0.6
               then let second_best_id = sorted_indices np_argsort predictions ! 1;
                        second_disease = clean_disease_name (mapping_get s second_best_id)
                    in Inr (Some
                         \<lparr>adjusted_prediction =
                            ''High Confidence with Uncertainty: Likely '' @ disease_name
                              @ '' but consider '' @ second_disease,
                          adjusted_confidence = (max_confidence + second_max) / 2,
                          reason = ''Detected unusually high confidence gap - adding uncertainty to prevent overconfidence.''\<rparr>)
               else Inr None))"

text \<open>
  \<^verbatim>\<open>_detect_bias_patterns\<close>. \<open>None\<close> is \<^verbatim>\<open>{"is_biased": False}\<close>. The reads
  \<^verbatim>\<open>sorted_indices[1]\<close> and \<^verbatim>\<open>sorted_indices[2]\<close> raise IndexError on a vector
  that is too short.
\<close>
definition detect_bias_patterns ::
    "(real list \<Rightarrow> nat list) \<Rightarrow> service \<Rightarrow> real list \<Rightarrow> string \<Rightarrow> real \<Rightarrow> py_error + bias_check option" where
  "detect_bias_patterns np_argsort s predictions disease_name conf =
     (if known_biased disease_name \<and> conf > 0.7
      then if length predictions < 3 then Inl IndexError
           else let second_best_id = sorted_indices np_argsort predictions ! 1;
                    third_best_id = sorted_indices np_argsort predictions ! 2;
                    second_confidence = predictions ! second_best_id;
                    third_confidence = predictions ! third_best_id;
                    second_disease = clean_disease_name (mapping_get s second_best_id);
                    third_disease = clean_disease_name (mapping_get s third_best_id)
                in if conf > 0.9
                   then Inr (Some
                          \<lparr>adjusted_prediction =
                             ''Uncertain Detection - Possibly '' @ second_disease @ '' or ''
                               @ third_disease,
                           adjusted_confidence = max second_confidence third_confidence,
                           reason = ''Model shows strong bias towards '' @ disease_name
                               @ ''. Suggesting alternatives based on secondary predictions.''\<rparr>)
                   else Inr (Some
                          \<lparr>adjusted_prediction =
                             ''Multiple Possibilities: '' @ disease_name @ '', '' @ second_disease
                               @ '', or '' @ third_disease,
                           adjusted_confidence = (conf + second_confidence + third_confidence) / 3,
                           reason = ''Detected potential bias pattern. Providing multiple possibilities.''\<rparr>)
      else dominance_check np_argsort s predictions disease_name)"

text \<open>
  \<^verbatim>\<open>_apply_bias_mitigation\<close>. \<^verbatim>\<open>top_indices[0]\<close> raises IndexError on an empty
  vector; nothing else is checked about the vector.
\<close>
definition apply_bias_mitigation ::
    "(real list \<Rightarrow> nat list) \<Rightarrow> service \<Rightarrow> real list \<Rightarrow> py_error + result" where
  "apply_bias_mitigation np_argsort s predictions =
     (if predictions = [] then Inl IndexError
      else let top_idx = top_indices np_argsort predictions;
               top_conf = top_confidences np_argsort predictions;
               predicted_class_id = top_idx ! 0;
               conf = top_conf ! 0;
               raw_disease_name = mapping_get s predicted_class_id;
               disease_name = clean_disease_name raw_disease_name
           in if conf < 0.6
              then Inr \<lparr>prediction = ''Uncertain - Low Confidence Detection'',
                        confidence = round4 conf,
                        status = ''low_confidence'',
                        alternative_predictions =
                          Some (get_alternative_predictions s top_idx top_conf),
                        original_prediction = None,
                        result_note = None\<rparr>
              else (case detect_bias_patterns np_argsort s predictions disease_name conf of
                      Inl e \<Rightarrow> Inl e
                    | Inr (Some b) \<Rightarrow>
                        Inr \<lparr>prediction = adjusted_prediction b,
                             confidence = round4 (adjusted_confidence b),
                             status = ''bias_adjusted'',
                             alternative_predictions = None,
                             original_prediction = Some disease_name,
                             result_note = Some (reason b)\<rparr>
                    | Inr None \<Rightarrow>
                        if conf > 0.95
                        then Inr \<lparr>prediction = disease_name,
                                  confidence = round4 conf,
                                  status = ''high_confidence_with_alternatives'',
                                  alternative_predictions =
                                    Some (get_alternative_predictions s top_idx top_conf),
                                  original_prediction = None,
                                  result_note = Some ''Very high confidence - consider alternative possibilities''\<rparr>
                        else Inr \<lparr>prediction = disease_name,
                                  confidence = round4 conf,
                                  status = ''normal'',
                                  alternative_predictions = None,
                                  original_prediction = None,
                                  result_note = None\<rparr>))"

text \<open>
  \<^verbatim>\<open>predict_disease\<close>; \<open>predictions\<close> is \<^verbatim>\<open>self.model.predict(image_array)[0]\<close>.
  Every exception of the decision policy is raised again as a ValueError.
\<close>
definition predict_disease ::
    "(real list \<Rightarrow> nat list) \<Rightarrow> service \<Rightarrow> real list \<Rightarrow> py_error + result" where
  "predict_disease np_argsort s predictions =
     (if \<not> is_model_loaded s then Inl ValueError
      else case apply_bias_mitigation np_argsort s predictions of
             Inl e \<Rightarrow> Inl ValueError
           | Inr r \<Rightarrow> Inr r)"

text \<open>
  \<^verbatim>\<open>predict_from_image_bytes\<close>: \<open>image_ok\<close> says whether \<^verbatim>\<open>preprocess_image\<close>
  decoded the bytes. Every exception becomes the dict \<^verbatim>\<open>{"error": str(e)}\<close>.
\<close>
datatype raw_result = RawError | RawResult result

definition predict_from_image_bytes ::
    "(real list \<Rightarrow> nat list) \<Rightarrow> service \<Rightarrow> bool \<Rightarrow> real list \<Rightarrow> raw_result" where
  "predict_from_image_bytes np_argsort s image_ok predictions =
     (if \<not> image_ok then RawError
      else case predict_disease np_argsort s predictions of
             Inl e \<Rightarrow> RawError
           | Inr r \<Rightarrow> RawResult r)"

section \<open>The root endpoint\<close>

text \<open>\<^verbatim>\<open>suggest_basic_treatment\<close> of \<^verbatim>\<open>routers/pest_detection.py\<close>.\<close>
definition suggest_basic_treatment :: "string \<Rightarrow> string" where
  "suggest_basic_treatment disease_name =
     (let name = lower disease_name
      in if contains ''late blight'' name
         then ''Apply copper-based fungicide; remove infected leaves; improve air circulation.''
         else if contains ''early blight'' name
         then ''Use fungicide (chlorothalonil/mancozeb); remove lower leaves; mulch to reduce soil splash.''
         else if contains ''bacterial'' name
         then ''Remove infected tissue; apply copper sprays; avoid overhead irrigation.''
         else if contains ''powdery mildew'' name
         then ''Use potassium bicarbonate or sulfur sprays; improve ventilation; avoid high humidity.''
         else if contains ''leaf mold'' name
         then ''Increase airflow; reduce humidity; consider chlorothalonil-based treatment.''
         else if contains ''rust'' name
         then ''Apply appropriate fungicide (strobilurin/triazole); remove heavily infected leaves.''
         else if contains ''mite'' name
         then ''Use miticide or insecticidal soap; monitor underside of leaves; improve plant vigor.''
         else if contains ''spot'' name
         then ''Copper-based fungicide; remove infected leaves; avoid wetting foliage.''
         else ''Use integrated pest management: monitor, remove infected parts, consider organic or copper-based treatments.'')"

definition treatment_map :: "(string \<times> string) list" where
  "treatment_map =
     [(''leaf spot'', ''Use Copper-based fungicide and ensure proper sunlight''),
      (''powdery mildew'', ''Apply sulfur-based spray and avoid overwatering''),
      (''healthy'', ''No action needed'')]"

text \<open>The uploaded file: its declared content type and the number of bytes read.\<close>
record upload =
  content_type :: "string option"
  content_size :: nat

text \<open>The JSON body of a successful answer.\<close>
record diagnosis =
  disease :: string
  resp_confidence :: real
  severity :: string
  treatment :: string
  resp_notes :: string

text \<open>
  An answer is a \<^verbatim>\<open>JSONResponse\<close> with an HTTP status code and an error tag, or the
  dict with \<^verbatim>\<open>"status": "success"\<close>.
\<close>
datatype response = Failed nat string | Success diagnosis

text \<open>
  \<^verbatim>\<open>predict_disease_root\<close>. The service call is
  \<^verbatim>\<open>service.predict_from_image_bytes(content)\<close>; \<open>image_ok\<close> and \<open>predictions\<close>
  stand for what the image library and the network make of the bytes.
\<close>
definition predict_disease_root ::
    "(real list \<Rightarrow> nat list) \<Rightarrow> service \<Rightarrow> upload \<Rightarrow> bool \<Rightarrow> real list \<Rightarrow> response" where
  "predict_disease_root np_argsort s img image_ok predictions =
     (if (case content_type img of None \<Rightarrow> True
          | Some t \<Rightarrow> t = [] \<or> \<not> prefix ''image/'' t)
      then Failed 400 ''image_invalid''
      else if content_size img = 0 then Failed 400 ''image_empty''
      else if content_size img > 10 * 1024 * 1024 then Failed 400 ''image_too_large''
      else case predict_from_image_bytes np_argsort s image_ok predictions of
             RawError \<Rightarrow> Failed 500 ''inference_error''
           | RawResult raw \<Rightarrow>
               let predicted_label = strip (if prediction raw = [] then ''Unknown'' else prediction raw);
                   conf = confidence raw
               in if conf < 0.45
                  then Success \<lparr>disease = ''Unknown'', resp_confidence = conf, severity = ''low'',
                                treatment = ''Unable to identify. Please upload clearer image.'',
                                resp_notes = ''Upload clearer image if confidence is low.''\<rparr>
                  else let sev = (if conf \<ge> 0.75 then ''high''
                                       else if conf \<ge> 0.60 then ''medium'' else ''low'');
                           key = lower predicted_label;
                           treat = (case map_of treatment_map key of
                                          Some t \<Rightarrow> t
                                        | None \<Rightarrow> suggest_basic_treatment predicted_label)
                       in Success \<lparr>disease = predicted_label, resp_confidence = round4 conf,
                                    severity = sev, treatment = treat,
                                    resp_notes = ''Upload clearer image if confidence is low.''\<rparr>)"

section \<open>Vocabulary of the statements\<close>

text \<open>
  The class id, the confidence and the cleaned label at position \<open>k\<close> of the ranking
  (\<open>k = 0\<close> is rank 1).
\<close>
definition rank_id :: "(real list \<Rightarrow> nat list) \<Rightarrow> real list \<Rightarrow> nat \<Rightarrow> nat" where
  "rank_id np_argsort p k = sorted_indices np_argsort p ! k"

definition rank_conf :: "(real list \<Rightarrow> nat list) \<Rightarrow> real list \<Rightarrow> nat \<Rightarrow> real" where
  "rank_conf np_argsort p k = p ! rank_id np_argsort p k"

definition rank_label :: "(real list \<Rightarrow> nat list) \<Rightarrow> service \<Rightarrow> real list \<Rightarrow> nat \<Rightarrow> string" where
  "rank_label np_argsort s p k = clean_disease_name (mapping_get s (rank_id np_argsort p k))"

text \<open>
  A result comes from the known-pattern branch when its note is one of the two
  reasons that branch writes.
\<close>
definition from_known_pattern :: "result \<Rightarrow> bool" where
  "from_known_pattern r =
     (case result_note r of
        None \<Rightarrow> False
      | Some n \<Rightarrow> prefix ''Model shows strong bias towards '' n
                  \<or> n = ''Detected potential bias pattern. Providing multiple possibilities.'')"

definition gap_reason :: string where
  "gap_reason = ''Detected unusually high confidence gap - adding uncertainty to prevent overconfidence.''"

text \<open>
  A service over five classes. Label 1 is a class name of the PlantVillage data set,
  whose cleaned form is the registry entry \<^verbatim>\<open>Potato - Healthy\<close>.
\<close>
definition example_service :: service where
  "example_service =
     \<lparr>model_present = True, is_loaded = True, num_classes = 5,
      disease_mapping =
        [(0, ''Healthy_Leaf''), (1, ''Potato___healthy''), (2, ''Apple_Scab''),
         (3, ''Grape_Esca''), (4, ''Corn_Common_Rust'')]\<rparr>"

text \<open>
  One function that \<^verbatim>\<open>np.argsort\<close> may be, insertion sort by value. It serves to
  evaluate the functions on given vectors.
\<close>
definition insertion_argsort :: "real list \<Rightarrow> nat list" where
  "insertion_argsort p = sort_key (\<lambda>i. p ! i) [0..<length p]"

text \<open>
  Another one: on the vector \<open>[0.3, 0.3, 0.2, 0.1, 0.1]\<close> it returns the equal entries
  3 and 4 in ascending and the equal entries 0 and 1 in descending order of the index.
\<close>
definition tie_argsort :: "real list \<Rightarrow> nat list" where
  "tie_argsort p =
     (if p = [3/10, 3/10, 2/10, 1/10, 1/10] then [3, 4, 2, 1, 0] else insertion_argsort p)"

section \<open>Facts about the ranking\<close>

lemma length_argsort: "is_argsort np_argsort p \<Longrightarrow> length (np_argsort p) = length p"
  unfolding is_argsort_def using mset_eq_length [of "np_argsort p" "[0..<length p]"] by simp

lemma set_argsort: "is_argsort np_argsort p \<Longrightarrow> set (np_argsort p) = {0..<length p}"
  unfolding is_argsort_def using mset_eq_setD [of "np_argsort p" "[0..<length p]"] by simp

lemma map_nth_argsort:
  assumes "is_argsort np_argsort p"
  shows "map (\<lambda>i. p ! i) (np_argsort p) = sort p"
proof -
  have "mset (map (\<lambda>i. p ! i) (np_argsort p)) = mset (map (\<lambda>i. p ! i) [0..<length p])"
    using assms by (simp add: is_argsort_def)
  then have "mset (map (\<lambda>i. p ! i) (np_argsort p)) = mset p" by (simp add: map_nth)
  moreover have "sorted (map (\<lambda>i. p ! i) (np_argsort p))"
    using assms by (simp add: is_argsort_def)
  ultimately have "sort p = map (\<lambda>i. p ! i) (np_argsort p)" by (rule properties_for_sort)
  then show ?thesis by simp
qed

lemma is_argsort_insertion: "is_argsort insertion_argsort p"
  by (simp add: is_argsort_def insertion_argsort_def)

lemma is_argsort_tie: "is_argsort tie_argsort p"
proof (cases "p = [3/10, 3/10, 2/10, 1/10, 1/10]")
  case True
  have t: "tie_argsort p = [3, 4, 2, 1, 0]" using True by (simp add: tie_argsort_def)
  have l: "length p = 5" using True by simp
  have "sort [3, 4, 2, 1, 0 :: nat] = [0..<5]" by code_simp
  then have "mset [3, 4, 2, 1, 0 :: nat] = mset [0..<5]" by (metis mset_sort)
  then have m: "mset (tie_argsort p) = mset [0..<length p]" by (simp only: t l)
  have "map (\<lambda>i. p ! i) [3, 4, 2, 1, 0] = [1/10, 1/10, 2/10, 3/10, 3/10]"
    using True by simp
  then have "sorted (map (\<lambda>i. p ! i) (tie_argsort p))" by (simp add: t)
  with m show ?thesis unfolding is_argsort_def by blast
next
  case False
  then show ?thesis using is_argsort_insertion [of p] by (simp add: is_argsort_def tie_argsort_def)
qed

lemma length_sorted_indices:
  "is_argsort np_argsort p \<Longrightarrow> length (sorted_indices np_argsort p) = length p"
  by (simp add: sorted_indices_def length_argsort)

lemma rank_id_less:
  assumes "is_argsort np_argsort p" and "k < length p"
  shows "rank_id np_argsort p k < length p"
proof -
  have "k < length (sorted_indices np_argsort p)"
    using assms by (simp add: length_sorted_indices)
  then have "sorted_indices np_argsort p ! k \<in> set (sorted_indices np_argsort p)" by simp
  then show ?thesis using assms(1) by (simp add: rank_id_def sorted_indices_def set_argsort)
qed

lemma rank_conf_sort:
  assumes "is_argsort np_argsort p" and k: "k < length p"
  shows "rank_conf np_argsort p k = sort p ! (length p - Suc k)"
proof -
  have len: "length (np_argsort p) = length p" using assms(1) by (rule length_argsort)
  have "rank_conf np_argsort p k = (map (\<lambda>i. p ! i) (np_argsort p)) ! (length p - Suc k)"
    using k len by (simp add: rank_conf_def rank_id_def sorted_indices_def rev_nth)
  then show ?thesis using assms(1) by (simp add: map_nth_argsort)
qed

lemma rank_conf_mono:
  assumes "is_argsort np_argsort p" and "i < j" and "j < length p"
  shows "rank_conf np_argsort p j \<le> rank_conf np_argsort p i"
proof -
  have "sort p ! (length p - Suc j) \<le> sort p ! (length p - Suc i)"
    using assms(2,3) by (intro sorted_nth_mono) simp_all
  then show ?thesis using assms by (simp add: rank_conf_sort)
qed

lemma Max_sort_last: "p \<noteq> [] \<Longrightarrow> Max (set p) = sort p ! (length p - 1)"
proof (rule Max_eqI)
  assume ne: "p \<noteq> []"
  show "finite (set p)" by simp
  have len: "length p - 1 < length (sort p)" using ne by simp
  then have "sort p ! (length p - 1) \<in> set (sort p)" by (rule nth_mem)
  then show "sort p ! (length p - 1) \<in> set p" by simp
  fix y assume "y \<in> set p"
  then have "y \<in> set (sort p)" by simp
  then obtain i where i: "i < length (sort p)" "sort p ! i = y"
    by (metis in_set_conv_nth)
  have "sort p ! i \<le> sort p ! (length p - 1)"
    using i(1) len by (intro sorted_nth_mono) simp_all
  then show "y \<le> sort p ! (length p - 1)" using i(2) by simp
qed

lemma top_indices_take:
  assumes "is_argsort np_argsort p"
  shows "top_indices np_argsort p = take 5 (sorted_indices np_argsort p)"
proof (cases "5 \<le> length (np_argsort p)")
  case True
  then show ?thesis by (simp add: top_indices_def sorted_indices_def rev_drop)
next
  case False
  then show ?thesis by (simp add: top_indices_def sorted_indices_def)
qed

lemma top_indices_0:
  "is_argsort np_argsort p \<Longrightarrow> p \<noteq> [] \<Longrightarrow> top_indices np_argsort p ! 0 = rank_id np_argsort p 0"
  by (simp add: top_indices_take rank_id_def)

lemma top_confidences_nth:
  "is_argsort np_argsort p \<Longrightarrow> k < 5 \<Longrightarrow> k < length p \<Longrightarrow>
   top_confidences np_argsort p ! k = rank_conf np_argsort p k"
  by (simp add: top_confidences_def top_indices_take rank_conf_def rank_id_def
        length_sorted_indices)

lemma np_max_rank:
  "is_argsort np_argsort p \<Longrightarrow> p \<noteq> [] \<Longrightarrow> np_max p = Inr (rank_conf np_argsort p 0)"
  by (simp add: np_max_def Max_sort_last rank_conf_sort)

lemma second_largest_rank:
  assumes "is_argsort np_argsort p" and "2 \<le> length p"
  shows "second_largest p = Inr (rank_conf np_argsort p 1)"
proof -
  from assms(2) have "length p - 2 = length p - Suc 1" by simp
  with assms show ?thesis by (simp add: second_largest_def rank_conf_sort del: One_nat_def)
qed

lemma get_alternative_predictions_rank:
  assumes "is_argsort np_argsort p"
  shows "get_alternative_predictions s (top_indices np_argsort p) (top_confidences np_argsort p) =
     map (\<lambda>k. (rank_label np_argsort s p k, round4 (rank_conf np_argsort p k)))
       [1..<min 4 (length p)]"
  using length_sorted_indices [OF assms]
  by (auto simp: get_alternative_predictions_def top_indices_take [OF assms]
        top_confidences_def rank_label_def rank_conf_def rank_id_def min_def)

section \<open>The ranking\<close>

text \<open>
  Claim C6, as the code has it. The ranking \<^verbatim>\<open>np.argsort(predictions)[::-1]\<close> is a
  permutation of all class ids, and the decision step keeps its first five entries.
  Along the ranking the confidence never increases. The order of two classes of
  equal confidence is the one \<^verbatim>\<open>np.argsort\<close> returns; the code does nothing to make
  it ascending in the class id.
\<close>
theorem rank_permutation:
  "is_argsort np_argsort p \<longrightarrow>
     mset (sorted_indices np_argsort p) = mset [0..<length p]
     \<and> top_indices np_argsort p = take 5 (sorted_indices np_argsort p)
     \<and> (\<forall>i j. i < j \<and> j < length p \<longrightarrow> rank_conf np_argsort p j \<le> rank_conf np_argsort p i)"
proof
  assume srt: "is_argsort np_argsort p"
  have a: "mset (sorted_indices np_argsort p) = mset [0..<length p]"
    using srt by (simp add: sorted_indices_def is_argsort_def)
  have b: "top_indices np_argsort p = take 5 (sorted_indices np_argsort p)"
    using srt by (rule top_indices_take)
  have c: "\<forall>i j. i < j \<and> j < length p \<longrightarrow> rank_conf np_argsort p j \<le> rank_conf np_argsort p i"
    using rank_conf_mono [OF srt] by blast
  from a b c show "mset (sorted_indices np_argsort p) = mset [0..<length p]
     \<and> top_indices np_argsort p = take 5 (sorted_indices np_argsort p)
     \<and> (\<forall>i j. i < j \<and> j < length p \<longrightarrow> rank_conf np_argsort p j \<le> rank_conf np_argsort p i)"
    by blast
qed

theorem rank_permutation_witness:
  "is_argsort tie_argsort [3/10, 3/10, 2/10, 1/10, 1/10]
   \<and> mset (sorted_indices tie_argsort [3/10, 3/10, 2/10, 1/10, 1/10])
       = mset [0..<length [3/10, 3/10, 2/10, 1/10, 1/10 :: real]]
   \<and> (2::nat) < 3 \<and> 3 < length [3/10, 3/10, 2/10, 1/10, 1/10 :: real]
   \<and> rank_conf tie_argsort [3/10, 3/10, 2/10, 1/10, 1/10] 3
       \<le> rank_conf tie_argsort [3/10, 3/10, 2/10, 1/10, 1/10] 2"
proof -
  have srt: "is_argsort tie_argsort [3/10, 3/10, 2/10, 1/10, 1/10]"
    by (rule is_argsort_tie)
  have h: "(2::nat) < 3 \<and> 3 < length [3/10, 3/10, 2/10, 1/10, 1/10 :: real]" by simp
  from rank_permutation [of tie_argsort "[3/10, 3/10, 2/10, 1/10, 1/10]"] srt h
  show ?thesis by blast
qed

text \<open>
  The claim as stated fails on a vector with ties, for a function that
  \<^verbatim>\<open>np.argsort\<close> may be: classes 3 and 4 share the lowest confidence and class 4 is
  ranked before class 3.
\<close>
theorem rank_ties_counterexample:
  "is_argsort tie_argsort [3/10, 3/10, 2/10, 1/10, 1/10]
   \<and> sorted_indices tie_argsort [3/10, 3/10, 2/10, 1/10, 1/10] = [0, 1, 2, 4, 3]
   \<and> rank_conf tie_argsort [3/10, 3/10, 2/10, 1/10, 1/10] 3
       = rank_conf tie_argsort [3/10, 3/10, 2/10, 1/10, 1/10] 4
   \<and> \<not> rank_id tie_argsort [3/10, 3/10, 2/10, 1/10, 1/10] 3
         < rank_id tie_argsort [3/10, 3/10, 2/10, 1/10, 1/10] 4"
  by code_simp

section \<open>Facts about the policy\<close>

lemma dominance_check_rank:
  "is_argsort np_argsort p \<Longrightarrow> 2 \<le> length p \<Longrightarrow>
   dominance_check np_argsort s p name =
     (if rank_conf np_argsort p 0 > 0.8 \<and> rank_conf np_argsort p 0 - rank_conf np_argsort p 1 > 0.6
      then Inr (Some
             \<lparr>adjusted_prediction =
                ''High Confidence with Uncertainty: Likely '' @ name @ '' but consider ''
                  @ rank_label np_argsort s p 1,
              adjusted_confidence = (rank_conf np_argsort p 0 + rank_conf np_argsort p 1) / 2,
              reason = gap_reason\<rparr>)
      else Inr None)"
proof -
  assume srt: "is_argsort np_argsort p" and len: "2 \<le> length p"
  then have ne: "p \<noteq> []" by auto
  show ?thesis
    unfolding dominance_check_def np_max_rank [OF srt ne] second_largest_rank [OF srt len]
    by (simp add: rank_label_def rank_id_def gap_reason_def Let_def)
qed

lemma detect_bias_patterns_rank:
  "3 \<le> length p \<Longrightarrow>
   detect_bias_patterns np_argsort s p name c =
     (if known_biased name \<and> c > 0.7
      then if c > 0.9
           then Inr (Some
                  \<lparr>adjusted_prediction =
                     ''Uncertain Detection - Possibly '' @ rank_label np_argsort s p 1 @ '' or ''
                       @ rank_label np_argsort s p 2,
                   adjusted_confidence = max (rank_conf np_argsort p 1) (rank_conf np_argsort p 2),
                   reason = ''Model shows strong bias towards '' @ name
                       @ ''. Suggesting alternatives based on secondary predictions.''\<rparr>)
           else Inr (Some
                  \<lparr>adjusted_prediction =
                     ''Multiple Possibilities: '' @ name @ '', '' @ rank_label np_argsort s p 1
                       @ '', or '' @ rank_label np_argsort s p 2,
                   adjusted_confidence = (c + rank_conf np_argsort p 1 + rank_conf np_argsort p 2) / 3,
                   reason = ''Detected potential bias pattern. Providing multiple possibilities.''\<rparr>)
      else dominance_check np_argsort s p name)"
  unfolding detect_bias_patterns_def
  by (simp add: rank_label_def rank_conf_def rank_id_def Let_def)

lemma apply_bias_mitigation_rank:
  "is_argsort np_argsort p \<Longrightarrow> p \<noteq> [] \<Longrightarrow>
   apply_bias_mitigation np_argsort s p =
     (if rank_conf np_argsort p 0 < 0.6
      then Inr \<lparr>prediction = ''Uncertain - Low Confidence Detection'',
                confidence = round4 (rank_conf np_argsort p 0),
                status = ''low_confidence'',
                alternative_predictions =
                  Some (map (\<lambda>k. (rank_label np_argsort s p k, round4 (rank_conf np_argsort p k)))
                          [1..<min 4 (length p)]),
                original_prediction = None,
                result_note = None\<rparr>
      else (case detect_bias_patterns np_argsort s p (rank_label np_argsort s p 0) (rank_conf np_argsort p 0) of
              Inl e \<Rightarrow> Inl e
            | Inr (Some b) \<Rightarrow>
                Inr \<lparr>prediction = adjusted_prediction b,
                     confidence = round4 (adjusted_confidence b),
                     status = ''bias_adjusted'',
                     alternative_predictions = None,
                     original_prediction = Some (rank_label np_argsort s p 0),
                     result_note = Some (reason b)\<rparr>
            | Inr None \<Rightarrow>
                if rank_conf np_argsort p 0 > 0.95
                then Inr \<lparr>prediction = rank_label np_argsort s p 0,
                          confidence = round4 (rank_conf np_argsort p 0),
                          status = ''high_confidence_with_alternatives'',
                          alternative_predictions =
                            Some (map (\<lambda>k. (rank_label np_argsort s p k, round4 (rank_conf np_argsort p k)))
                                    [1..<min 4 (length p)]),
                          original_prediction = None,
                          result_note = Some ''Very high confidence - consider alternative possibilities''\<rparr>
                else Inr \<lparr>prediction = rank_label np_argsort s p 0,
                          confidence = round4 (rank_conf np_argsort p 0),
                          status = ''normal'',
                          alternative_predictions = None,
                          original_prediction = None,
                          result_note = None\<rparr>))"
proof -
  assume srt: "is_argsort np_argsort p" and ne: "p \<noteq> []"
  then have c: "top_confidences np_argsort p ! 0 = rank_conf np_argsort p 0"
    by (simp add: top_confidences_nth)
  have l: "clean_disease_name (mapping_get s (top_indices np_argsort p ! 0)) = rank_label np_argsort s p 0"
    using srt ne by (simp add: top_indices_0 rank_label_def)
  show ?thesis
    unfolding apply_bias_mitigation_def Let_def c l get_alternative_predictions_rank [OF srt]
    using ne by simp
qed

lemma registry_label_known_biased: "name \<in> set problematic_predictions \<Longrightarrow> known_biased name"
proof -
  have refl: "contains x x" for x by (cases x) simp_all
  assume "name \<in> set problematic_predictions"
  then show ?thesis unfolding known_biased_def list_ex_iff using refl by blast
qed

section \<open>The low-confidence rule\<close>

text \<open>
  Claim C1, as the code has it. When the rank-1 confidence is strictly below 0.6 the
  result has status \<^verbatim>\<open>low_confidence\<close>, the label
  \<^verbatim>\<open>Uncertain - Low Confidence Detection\<close>, the rank-1 confidence rounded to four
  decimals, and as alternatives the entries of rank 2 to 4 (as many as the vector
  has), each with its cleaned label and rounded confidence.
\<close>
theorem low_confidence_result:
  "is_argsort np_argsort predictions \<and> predictions \<noteq> [] \<and> rank_conf np_argsort predictions 0 < 0.6 \<longrightarrow>
   apply_bias_mitigation np_argsort s predictions =
     Inr \<lparr>prediction = ''Uncertain - Low Confidence Detection'',
          confidence = round4 (rank_conf np_argsort predictions 0),
          status = ''low_confidence'',
          alternative_predictions =
            Some (map (\<lambda>k. (rank_label np_argsort s predictions k, round4 (rank_conf np_argsort predictions k)))
                    [1..<min 4 (length predictions)]),
          original_prediction = None,
          result_note = None\<rparr>"
  by (simp add: apply_bias_mitigation_rank)

theorem low_confidence_result_witness:
  "is_argsort insertion_argsort [33333/100000, 1/4, 1/5, 3/20, 6667/100000]
   \<and> [33333/100000, 1/4, 1/5, 3/20, 6667/100000 :: real] \<noteq> [] \<and> rank_conf insertion_argsort [33333/100000, 1/4, 1/5, 3/20, 6667/100000] 0 < 0.6
   \<and> apply_bias_mitigation insertion_argsort example_service [33333/100000, 1/4, 1/5, 3/20, 6667/100000] =
     Inr \<lparr>prediction = ''Uncertain - Low Confidence Detection'',
          confidence = 3333/10000,
          status = ''low_confidence'',
          alternative_predictions =
            Some [(''Potato - Healthy'', 1/4), (''Apple Scab'', 1/5), (''Grape Esca'', 3/20)],
          original_prediction = None,
          result_note = None\<rparr>"
proof -
  have h: "[33333/100000, 1/4, 1/5, 3/20, 6667/100000 :: real] \<noteq> [] \<and> rank_conf insertion_argsort [33333/100000, 1/4, 1/5, 3/20, 6667/100000] 0 < 0.6"
    by code_simp
  have e: "map (\<lambda>k. (rank_label insertion_argsort example_service [33333/100000, 1/4, 1/5, 3/20, 6667/100000] k,
                      round4 (rank_conf insertion_argsort [33333/100000, 1/4, 1/5, 3/20, 6667/100000] k)))
             [1..<min 4 (length [33333/100000, 1/4, 1/5, 3/20, 6667/100000 :: real])]
           = [(''Potato - Healthy'', 1/4), (''Apple Scab'', 1/5), (''Grape Esca'', 3/20)]"
    by code_simp
  have r: "round4 (rank_conf insertion_argsort [33333/100000, 1/4, 1/5, 3/20, 6667/100000] 0) = 3333/10000" by code_simp
  have a: "is_argsort insertion_argsort [33333/100000, 1/4, 1/5, 3/20, 6667/100000]"
    by (rule is_argsort_insertion)
  from low_confidence_result
    [of insertion_argsort "[33333/100000, 1/4, 1/5, 3/20, 6667/100000]" example_service] a h
  show ?thesis unfolding e r by blast
qed

text \<open>
  The claim as stated fails: the label is not \<^verbatim>\<open>Unknown\<close>, the alternatives are
  not empty, and the confidence is rounded.
\<close>
theorem low_confidence_counterexample:
  "is_argsort insertion_argsort [33333/100000, 1/4, 1/5, 3/20, 6667/100000]
   \<and> rank_conf insertion_argsort [33333/100000, 1/4, 1/5, 3/20, 6667/100000] 0 < 0.6
   \<and> apply_bias_mitigation insertion_argsort example_service [33333/100000, 1/4, 1/5, 3/20, 6667/100000] =
     Inr \<lparr>prediction = ''Uncertain - Low Confidence Detection'',
          confidence = 3333/10000,
          status = ''low_confidence'',
          alternative_predictions =
            Some [(''Potato - Healthy'', 1/4), (''Apple Scab'', 1/5), (''Grape Esca'', 3/20)],
          original_prediction = None,
          result_note = None\<rparr>
   \<and> ''Uncertain - Low Confidence Detection'' \<noteq> ''Unknown''
   \<and> (3333/10000 :: real) \<noteq> rank_conf insertion_argsort [33333/100000, 1/4, 1/5, 3/20, 6667/100000] 0
   \<and> [(''Potato - Healthy'', 1/4 :: real), (''Apple Scab'', 1/5), (''Grape Esca'', 3/20)] \<noteq> []"
  by code_simp

section \<open>The order of the rules\<close>

text \<open>
  Claim C2. On a vector of at least three classes the policy always returns a result,
  and its rules are tried in the order low confidence, known pattern, dominance gap,
  very high confidence, default; the first rule whose condition holds decides the
  status. In particular, when the rank-1 confidence exceeds 0.95 and 0.8 and the gap
  to rank 2 exceeds 0.6, the status is \<^verbatim>\<open>bias_adjusted\<close> and not
  \<^verbatim>\<open>high_confidence_with_alternatives\<close>; when moreover the rank-1 label matches no
  registry entry, the result is the one of the dominance-gap rule.
\<close>
theorem rule_order:
  assumes len: "3 \<le> length p" and srt: "is_argsort np_argsort p"
  shows "\<exists>r. apply_bias_mitigation np_argsort s p = Inr r
     \<and> (rank_conf np_argsort p 0 < 0.6 \<longrightarrow> status r = ''low_confidence'')
     \<and> (\<not> rank_conf np_argsort p 0 < 0.6 \<and> known_biased (rank_label np_argsort s p 0) \<and> rank_conf np_argsort p 0 > 0.7 \<longrightarrow>
          status r = ''bias_adjusted'' \<and> from_known_pattern r)
     \<and> (\<not> rank_conf np_argsort p 0 < 0.6 \<and> \<not> (known_biased (rank_label np_argsort s p 0) \<and> rank_conf np_argsort p 0 > 0.7)
          \<and> rank_conf np_argsort p 0 > 0.8 \<and> rank_conf np_argsort p 0 - rank_conf np_argsort p 1 > 0.6 \<longrightarrow>
          status r = ''bias_adjusted'' \<and> result_note r = Some gap_reason)
     \<and> (\<not> rank_conf np_argsort p 0 < 0.6 \<and> \<not> (known_biased (rank_label np_argsort s p 0) \<and> rank_conf np_argsort p 0 > 0.7)
          \<and> \<not> (rank_conf np_argsort p 0 > 0.8 \<and> rank_conf np_argsort p 0 - rank_conf np_argsort p 1 > 0.6)
          \<and> rank_conf np_argsort p 0 > 0.95 \<longrightarrow>
          status r = ''high_confidence_with_alternatives'')
     \<and> (\<not> rank_conf np_argsort p 0 < 0.6 \<and> \<not> (known_biased (rank_label np_argsort s p 0) \<and> rank_conf np_argsort p 0 > 0.7)
          \<and> \<not> (rank_conf np_argsort p 0 > 0.8 \<and> rank_conf np_argsort p 0 - rank_conf np_argsort p 1 > 0.6)
          \<and> \<not> rank_conf np_argsort p 0 > 0.95 \<longrightarrow>
          status r = ''normal'')
     \<and> (rank_conf np_argsort p 0 > 0.95 \<and> rank_conf np_argsort p 0 > 0.8 \<and> rank_conf np_argsort p 0 - rank_conf np_argsort p 1 > 0.6 \<longrightarrow>
          status r = ''bias_adjusted''
          \<and> status r \<noteq> ''high_confidence_with_alternatives''
          \<and> (\<not> known_biased (rank_label np_argsort s p 0) \<longrightarrow>
                result_note r = Some gap_reason
                \<and> prediction r = ''High Confidence with Uncertainty: Likely '' @ rank_label np_argsort s p 0
                     @ '' but consider '' @ rank_label np_argsort s p 1))"
proof -
  from len have ne: "p \<noteq> []" and two: "2 \<le> length p" by auto
  show ?thesis
    unfolding apply_bias_mitigation_rank [OF srt ne] detect_bias_patterns_rank [OF len]
      dominance_check_rank [OF srt two]
    by (simp add: from_known_pattern_def)
qed

theorem rule_order_witness:
  "is_argsort insertion_argsort [97/100, 1/100, 1/100, 1/200, 1/200]
   \<and> 3 \<le> length [97/100, 1/100, 1/100, 1/200, 1/200 :: real]
   \<and> rank_conf insertion_argsort [97/100, 1/100, 1/100, 1/200, 1/200] 0 > 0.95
   \<and> rank_conf insertion_argsort [97/100, 1/100, 1/100, 1/200, 1/200] 0 > 0.8
   \<and> rank_conf insertion_argsort [97/100, 1/100, 1/100, 1/200, 1/200] 0
       - rank_conf insertion_argsort [97/100, 1/100, 1/100, 1/200, 1/200] 1 > 0.6
   \<and> \<not> known_biased (rank_label insertion_argsort example_service [97/100, 1/100, 1/100, 1/200, 1/200] 0)
   \<and> (\<exists>r. apply_bias_mitigation insertion_argsort example_service [97/100, 1/100, 1/100, 1/200, 1/200] = Inr r
        \<and> status r = ''bias_adjusted'' \<and> result_note r = Some gap_reason)"
proof -
  have srt: "is_argsort insertion_argsort [97/100, 1/100, 1/100, 1/200, 1/200]"
    by (rule is_argsort_insertion)
  have len: "3 \<le> length [97/100, 1/100, 1/100, 1/200, 1/200 :: real]" by simp
  have h: "rank_conf insertion_argsort [97/100, 1/100, 1/100, 1/200, 1/200] 0 > 0.95
     \<and> rank_conf insertion_argsort [97/100, 1/100, 1/100, 1/200, 1/200] 0 > 0.8
     \<and> rank_conf insertion_argsort [97/100, 1/100, 1/100, 1/200, 1/200] 0
         - rank_conf insertion_argsort [97/100, 1/100, 1/100, 1/200, 1/200] 1 > 0.6
     \<and> \<not> known_biased (rank_label insertion_argsort example_service [97/100, 1/100, 1/100, 1/200, 1/200] 0)"
    by code_simp
  from rule_order [OF len srt, of example_service] h len srt show ?thesis by blast
qed

section \<open>The known-pattern rule\<close>

text \<open>
  Claim C3, as the code has it. On a vector of at least three classes the
  known-pattern branch decides the result exactly when the cleaned rank-1 label
  contains a registry entry and the rank-1 confidence is strictly greater than 0.7;
  the status is then \<^verbatim>\<open>bias_adjusted\<close>.
\<close>
theorem known_bias_trigger:
  assumes len: "3 \<le> length p" and srt: "is_argsort np_argsort p"
  shows "\<exists>r. apply_bias_mitigation np_argsort s p = Inr r
     \<and> (from_known_pattern r \<longleftrightarrow> known_biased (rank_label np_argsort s p 0) \<and> rank_conf np_argsort p 0 > 0.7)
     \<and> (from_known_pattern r \<longrightarrow> status r = ''bias_adjusted'')"
proof -
  from len have ne: "p \<noteq> []" and two: "2 \<le> length p" by auto
  show ?thesis
    unfolding apply_bias_mitigation_rank [OF srt ne] detect_bias_patterns_rank [OF len]
      dominance_check_rank [OF srt two]
    by (simp add: from_known_pattern_def gap_reason_def)
qed

theorem known_bias_trigger_witness:
  "is_argsort insertion_argsort [1/20, 3/4, 1/10, 3/50, 1/25]
   \<and> 3 \<le> length [1/20, 3/4, 1/10, 3/50, 1/25 :: real]
   \<and> known_biased (rank_label insertion_argsort example_service [1/20, 3/4, 1/10, 3/50, 1/25] 0)
   \<and> rank_conf insertion_argsort [1/20, 3/4, 1/10, 3/50, 1/25] 0 > 0.7
   \<and> (\<exists>r. apply_bias_mitigation insertion_argsort example_service [1/20, 3/4, 1/10, 3/50, 1/25] = Inr r
        \<and> from_known_pattern r \<and> status r = ''bias_adjusted'')"
proof -
  have srt: "is_argsort insertion_argsort [1/20, 3/4, 1/10, 3/50, 1/25]"
    by (rule is_argsort_insertion)
  have len: "3 \<le> length [1/20, 3/4, 1/10, 3/50, 1/25 :: real]" by simp
  have h: "known_biased (rank_label insertion_argsort example_service [1/20, 3/4, 1/10, 3/50, 1/25] 0)
     \<and> rank_conf insertion_argsort [1/20, 3/4, 1/10, 3/50, 1/25] 0 > 0.7"
    by code_simp
  from known_bias_trigger [OF len srt, of example_service] h len srt show ?thesis by blast
qed

text \<open>
  The claim as stated fails at the threshold itself: a registry label with confidence
  exactly 0.7 is not adjusted, the result is \<^verbatim>\<open>normal\<close>.
\<close>
theorem known_bias_boundary_counterexample:
  "is_argsort insertion_argsort [1/5, 7/10, 1/10]
   \<and> rank_label insertion_argsort example_service [1/5, 7/10, 1/10] 0 = ''Potato - Healthy''
   \<and> ''Potato - Healthy'' \<in> set problematic_predictions
   \<and> rank_conf insertion_argsort [1/5, 7/10, 1/10] 0 = 0.7
   \<and> apply_bias_mitigation insertion_argsort example_service [1/5, 7/10, 1/10] =
       Inr \<lparr>prediction = ''Potato - Healthy'', confidence = 7/10, status = ''normal'',
            alternative_predictions = None, original_prediction = None, result_note = None\<rparr>
   \<and> ''normal'' \<noteq> ''bias_adjusted''"
  by code_simp

text \<open>
  Claim C7, as the code has it. When the cleaned rank-1 label contains a registry entry
  (as every label that is a registry entry does) and its confidence is strictly
  greater than 0.9, the result has status \<^verbatim>\<open>bias_adjusted\<close>, a label built from
  the labels of rank 2 and rank 3, the larger of their two confidences rounded to
  four decimals, and the rank-1 label as original prediction.
\<close>
theorem severe_bias_override:
  assumes "3 \<le> length p"
    and "known_biased (rank_label np_argsort s p 0)"
    and "rank_conf np_argsort p 0 > 0.9"
    and srt: "is_argsort np_argsort p"
  shows "apply_bias_mitigation np_argsort s p =
     Inr \<lparr>prediction = ''Uncertain Detection - Possibly '' @ rank_label np_argsort s p 1 @ '' or ''
                          @ rank_label np_argsort s p 2,
          confidence = round4 (max (rank_conf np_argsort p 1) (rank_conf np_argsort p 2)),
          status = ''bias_adjusted'',
          alternative_predictions = None,
          original_prediction = Some (rank_label np_argsort s p 0),
          result_note = Some (''Model shows strong bias towards '' @ rank_label np_argsort s p 0
                          @ ''. Suggesting alternatives based on secondary predictions.'')\<rparr>"
proof -
  from assms(1) have ne: "p \<noteq> []" by auto
  show ?thesis
    unfolding apply_bias_mitigation_rank [OF srt ne] detect_bias_patterns_rank [OF assms(1)]
    using assms(2,3) by simp
qed

theorem severe_bias_override_witness:
  "is_argsort insertion_argsort [1/50, 93/100, 3/100, 1/100, 1/100]
   \<and> 3 \<le> length [1/50, 93/100, 3/100, 1/100, 1/100 :: real]
   \<and> rank_label insertion_argsort example_service [1/50, 93/100, 3/100, 1/100, 1/100] 0 \<in> set problematic_predictions
   \<and> known_biased (rank_label insertion_argsort example_service [1/50, 93/100, 3/100, 1/100, 1/100] 0)
   \<and> rank_conf insertion_argsort [1/50, 93/100, 3/100, 1/100, 1/100] 0 > 0.9
   \<and> apply_bias_mitigation insertion_argsort example_service [1/50, 93/100, 3/100, 1/100, 1/100] =
     Inr \<lparr>prediction = ''Uncertain Detection - Possibly Apple Scab or Healthy Leaf'',
          confidence = 3/100,
          status = ''bias_adjusted'',
          alternative_predictions = None,
          original_prediction = Some ''Potato - Healthy'',
          result_note = Some ''Model shows strong bias towards Potato - Healthy. Suggesting alternatives based on secondary predictions.''\<rparr>"
proof -
  have srt: "is_argsort insertion_argsort [1/50, 93/100, 3/100, 1/100, 1/100]"
    by (rule is_argsort_insertion)
  have len: "3 \<le> length [1/50, 93/100, 3/100, 1/100, 1/100 :: real]" by simp
  have m: "rank_label insertion_argsort example_service [1/50, 93/100, 3/100, 1/100, 1/100] 0 \<in> set problematic_predictions"
    by code_simp
  have kb: "known_biased (rank_label insertion_argsort example_service [1/50, 93/100, 3/100, 1/100, 1/100] 0)"
    by code_simp
  have c: "rank_conf insertion_argsort [1/50, 93/100, 3/100, 1/100, 1/100] 0 > 0.9" by code_simp
  have l0: "rank_label insertion_argsort example_service [1/50, 93/100, 3/100, 1/100, 1/100] 0 = ''Potato - Healthy''"
    by code_simp
  have l1: "rank_label insertion_argsort example_service [1/50, 93/100, 3/100, 1/100, 1/100] 1 = ''Apple Scab''"
    by code_simp
  have l2: "rank_label insertion_argsort example_service [1/50, 93/100, 3/100, 1/100, 1/100] 2 = ''Healthy Leaf''"
    by code_simp
  have r: "round4 (max (rank_conf insertion_argsort [1/50, 93/100, 3/100, 1/100, 1/100] 1)
                       (rank_conf insertion_argsort [1/50, 93/100, 3/100, 1/100, 1/100] 2)) = 3/100"
    by code_simp
  from severe_bias_override [OF len kb c srt] len m kb c srt show ?thesis
    unfolding l0 l1 l2 r by simp
qed

text \<open>
  The claim as stated fails where the larger of the two confidences has more than four
  decimals: the result carries its rounded value.
\<close>
theorem severe_bias_confidence_counterexample:
  "is_argsort insertion_argsort [1/50, 93/100, 3333/100000, 1/100, 667/100000]
   \<and> rank_label insertion_argsort example_service [1/50, 93/100, 3333/100000, 1/100, 667/100000] 0
     \<in> set problematic_predictions
   \<and> rank_conf insertion_argsort [1/50, 93/100, 3333/100000, 1/100, 667/100000] 0 > 0.9
   \<and> apply_bias_mitigation insertion_argsort example_service [1/50, 93/100, 3333/100000, 1/100, 667/100000] =
     Inr \<lparr>prediction = ''Uncertain Detection - Possibly Apple Scab or Healthy Leaf'',
          confidence = 333/10000,
          status = ''bias_adjusted'',
          alternative_predictions = None,
          original_prediction = Some ''Potato - Healthy'',
          result_note = Some ''Model shows strong bias towards Potato - Healthy. Suggesting alternatives based on secondary predictions.''\<rparr>
   \<and> max (rank_conf insertion_argsort [1/50, 93/100, 3333/100000, 1/100, 667/100000] 1)
          (rank_conf insertion_argsort [1/50, 93/100, 3333/100000, 1/100, 667/100000] 2) = 3333/100000
   \<and> (333/10000 :: real) \<noteq> 3333/100000"
  by code_simp

section \<open>Input validation\<close>

text \<open>
  Claim C8, as the code has it. An empty vector makes \<^verbatim>\<open>_apply_bias_mitigation\<close>
  raise IndexError, which \<^verbatim>\<open>predict_disease\<close> raises again as ValueError and
  \<^verbatim>\<open>predict_from_image_bytes\<close> turns into an error dict. Nothing else about the
  vector is checked: every vector of at least three entries is classified, whatever
  its length compared to the taxonomy and whatever the range of its values.
\<close>
theorem no_input_validation:
  "apply_bias_mitigation np_argsort s [] = Inl IndexError
   \<and> predict_disease np_argsort s [] = Inl ValueError
   \<and> predict_from_image_bytes np_argsort s image_ok [] = RawError
   \<and> (is_argsort np_argsort p \<and> 3 \<le> length p \<longrightarrow>
         (\<exists>r. apply_bias_mitigation np_argsort s p = Inr r))"
proof -
  have a: "apply_bias_mitigation np_argsort s [] = Inl IndexError"
    by (simp add: apply_bias_mitigation_def)
  have b: "predict_disease np_argsort s [] = Inl ValueError"
    by (simp add: predict_disease_def a)
  have c: "predict_from_image_bytes np_argsort s image_ok [] = RawError"
    by (simp add: predict_from_image_bytes_def b)
  have d: "\<exists>r. apply_bias_mitigation np_argsort s p = Inr r"
    if srt: "is_argsort np_argsort p" and len: "3 \<le> length p"
  proof -
    from len have ne: "p \<noteq> []" and two: "2 \<le> length p" by auto
    show ?thesis
      unfolding apply_bias_mitigation_rank [OF srt ne] detect_bias_patterns_rank [OF len]
        dominance_check_rank [OF srt two]
      by simp
  qed
  from a b c d show ?thesis by blast
qed

theorem no_input_validation_witness:
  "is_argsort insertion_argsort [2, -1, 1/2]
   \<and> 3 \<le> length [2, -1, 1/2 :: real]
   \<and> (\<exists>r. apply_bias_mitigation insertion_argsort example_service [2, -1, 1/2] = Inr r)"
proof -
  have srt: "is_argsort insertion_argsort [2, -1, 1/2]"
    by (rule is_argsort_insertion)
  have len: "3 \<le> length [2, -1, 1/2 :: real]" by simp
  with no_input_validation [of insertion_argsort example_service True "[2, -1, 1/2]"] srt show ?thesis by blast
qed

text \<open>
  The claim as stated fails: a vector of three entries outside \<open>[0, 1]\<close> given to
  the service of 22 classes yields a result, with a confidence above 1.
\<close>
theorem malformed_vector_counterexample:
  "is_argsort insertion_argsort [2, -1, 1/2]
   \<and> length [2, -1, 1/2 :: real] \<noteq> num_classes (init True)
   \<and> length [2, -1, 1/2 :: real] \<noteq> length (disease_mapping (init True))
   \<and> \<not> (\<forall>x \<in> set [2, -1, 1/2 :: real]. 0 \<le> x \<and> x \<le> 1)
   \<and> apply_bias_mitigation insertion_argsort (init True) [2, -1, 1/2] =
       Inr \<lparr>prediction = ''High Confidence with Uncertainty: Likely Healthy Leaf but consider Apple Black Rot'',
            confidence = 5/4,
            status = ''bias_adjusted'',
            alternative_predictions = None,
            original_prediction = Some ''Healthy Leaf'',
            result_note = Some ''Detected unusually high confidence gap - adding uncertainty to prevent overconfidence.''\<rparr>"
  by code_simp

section \<open>The registry and the taxonomy\<close>

text \<open>
  Claim C4, as the code has it. No label of the registry is a label of the taxonomy
  the constructor installs, raw or cleaned, and nothing checks it: the constructor
  has no failure, and a service whose model is loaded answers every vector of 22
  classes with a result.
\<close>
theorem registry_not_validated:
  "list_all (\<lambda>prob. prob \<notin> set (map snd (disease_mapping (init load_ok)))
                    \<and> prob \<notin> set (map (\<lambda>(i, n). clean_disease_name n) (disease_mapping (init load_ok))))
     problematic_predictions
   \<and> is_model_loaded (init True)
   \<and> (is_argsort np_argsort p \<and> length p = 22 \<longrightarrow>
         (\<exists>r. predict_disease np_argsort (init True) p = Inr r))"
proof -
  have m: "disease_mapping (init load_ok) = disease_mapping (init True)"
    by (simp add: init_def)
  have A: "list_all (\<lambda>prob. prob \<notin> set (map snd (disease_mapping (init load_ok)))
                    \<and> prob \<notin> set (map (\<lambda>(i, n). clean_disease_name n) (disease_mapping (init load_ok))))
     problematic_predictions"
    unfolding m by code_simp
  have L: "is_model_loaded (init True)" by (simp add: is_model_loaded_def init_def)
  have B: "\<exists>r. predict_disease np_argsort (init True) p = Inr r"
    if srt: "is_argsort np_argsort p" and len: "length p = 22"
  proof -
    from len have ne: "p \<noteq> []" and two: "2 \<le> length p" and three: "3 \<le> length p" by auto
    have "\<exists>r. apply_bias_mitigation np_argsort (init True) p = Inr r"
      unfolding apply_bias_mitigation_rank [OF srt ne] detect_bias_patterns_rank [OF three]
        dominance_check_rank [OF srt two]
      by simp
    then show ?thesis using L by (auto simp: predict_disease_def)
  qed
  from A L B show ?thesis by blast
qed

theorem registry_not_validated_witness:
  "is_argsort insertion_argsort ([7/10, 1/10, 1/10, 1/10, 0, 0, 0, 0, 0, 0, 0, 0, 0, 0, 0, 0, 0, 0, 0, 0, 0, 0 :: real])
   \<and> length ([7/10, 1/10, 1/10, 1/10, 0, 0, 0, 0, 0, 0, 0, 0, 0, 0, 0, 0, 0, 0, 0, 0, 0, 0 :: real]) = 22
   \<and> (\<exists>r. predict_disease insertion_argsort (init True) ([7/10, 1/10, 1/10, 1/10, 0, 0, 0, 0, 0, 0, 0, 0, 0, 0, 0, 0, 0, 0, 0, 0, 0, 0 :: real]) = Inr r)"
proof -
  have srt: "is_argsort insertion_argsort ([7/10, 1/10, 1/10, 1/10, 0, 0, 0, 0, 0, 0, 0, 0, 0, 0, 0, 0, 0, 0, 0, 0, 0, 0 :: real])"
    by (rule is_argsort_insertion)
  have len: "length ([7/10, 1/10, 1/10, 1/10, 0, 0, 0, 0, 0, 0, 0, 0, 0, 0, 0, 0, 0, 0, 0, 0, 0, 0 :: real]) = 22" by simp
  from registry_not_validated [where load_ok = True and np_argsort = insertion_argsort and p = "[7/10, 1/10, 1/10, 1/10, 0, 0, 0, 0, 0, 0, 0, 0, 0, 0, 0, 0, 0, 0, 0, 0, 0, 0]"]
    srt len
  show ?thesis by blast
qed

text \<open>
  The claim as stated fails on the shipped configuration: the registry entry
  \<^verbatim>\<open>Potato - Healthy\<close> is unknown to the taxonomy, the service is constructed and
  loaded all the same, and it serves a request.
\<close>
theorem registry_unknown_label_counterexample:
  "is_argsort insertion_argsort [7/10, 1/10, 1/10, 1/10, 0, 0, 0, 0, 0, 0, 0, 0, 0, 0, 0, 0, 0, 0, 0, 0, 0, 0]
   \<and> ''Potato - Healthy'' \<in> set problematic_predictions
   \<and> ''Potato - Healthy'' \<notin> set (map snd (disease_mapping (init True)))
   \<and> ''Potato - Healthy'' \<notin> set (map (\<lambda>(i, n). clean_disease_name n) (disease_mapping (init True)))
   \<and> is_model_loaded (init True)
   \<and> predict_disease insertion_argsort (init True) ([7/10, 1/10, 1/10, 1/10, 0, 0, 0, 0, 0, 0, 0, 0, 0, 0, 0, 0, 0, 0, 0, 0, 0, 0 :: real]) =
       Inr \<lparr>prediction = ''Healthy Leaf'', confidence = 7/10, status = ''normal'',
            alternative_predictions = None, original_prediction = None, result_note = None\<rparr>"
  by code_simp

text \<open>No cleaned label of the 22 classes contains a registry entry.\<close>
lemma init_labels_not_biased:
  "i < 22 \<Longrightarrow> \<not> known_biased (clean_disease_name (mapping_get (init load_ok) i))"
proof -
  have eq: "mapping_get (init load_ok) i = mapping_get (init True) i"
    by (simp add: mapping_get_def init_def)
  have "list_all (\<lambda>i. \<not> known_biased (clean_disease_name (mapping_get (init True) i))) [0..<22]"
    by code_simp
  then have all: "\<forall>i\<in>set [0..<22]. \<not> known_biased (clean_disease_name (mapping_get (init True) i))"
    by (simp only: list_all_iff)
  assume "i < 22"
  then have "i \<in> set [0..<22]" by simp
  with all have "\<not> known_biased (clean_disease_name (mapping_get (init True) i))" by blast
  then show ?thesis unfolding eq .
qed

text \<open>
  Claim C5. No cleaned label of the 22-class taxonomy contains a registry entry, so on
  a vector of 22 classes the rank-1 label is never matched and the known-pattern
  branch never decides the result. A result with status \<^verbatim>\<open>bias_adjusted\<close> then
  comes from the dominance-gap rule: its label has that rule's format and its
  confidence is the mean of the two top confidences, rounded to four decimals.
\<close>
theorem known_pattern_never_fires:
  "list_all (\<lambda>(i, n). list_all (\<lambda>prob. \<not> contains prob (clean_disease_name n))
                         problematic_predictions)
     (disease_mapping (init load_ok))
   \<and> (is_argsort np_argsort p \<and> length p = 22 \<longrightarrow>
        \<not> known_biased (rank_label np_argsort (init load_ok) p 0)
        \<and> (\<exists>r. apply_bias_mitigation np_argsort (init load_ok) p = Inr r
              \<and> \<not> from_known_pattern r
              \<and> (status r = ''bias_adjusted'' \<longrightarrow>
                    rank_conf np_argsort p 0 > 0.8 \<and> rank_conf np_argsort p 0 - rank_conf np_argsort p 1 > 0.6
                    \<and> prediction r = ''High Confidence with Uncertainty: Likely ''
                          @ rank_label np_argsort (init load_ok) p 0 @ '' but consider ''
                          @ rank_label np_argsort (init load_ok) p 1
                    \<and> confidence r = round4 ((rank_conf np_argsort p 0 + rank_conf np_argsort p 1) / 2)
                    \<and> original_prediction r = Some (rank_label np_argsort (init load_ok) p 0)
                    \<and> result_note r = Some gap_reason)))"
proof -
  have m: "disease_mapping (init load_ok) = disease_mapping (init True)"
    by (simp add: init_def)
  have A: "list_all (\<lambda>(i, n). list_all (\<lambda>prob. \<not> contains prob (clean_disease_name n))
                         problematic_predictions)
     (disease_mapping (init load_ok))"
    unfolding m by code_simp
  have B: "\<not> known_biased (rank_label np_argsort (init load_ok) p 0)
        \<and> (\<exists>r. apply_bias_mitigation np_argsort (init load_ok) p = Inr r
              \<and> \<not> from_known_pattern r
              \<and> (status r = ''bias_adjusted'' \<longrightarrow>
                    rank_conf np_argsort p 0 > 0.8 \<and> rank_conf np_argsort p 0 - rank_conf np_argsort p 1 > 0.6
                    \<and> prediction r = ''High Confidence with Uncertainty: Likely ''
                          @ rank_label np_argsort (init load_ok) p 0 @ '' but consider ''
                          @ rank_label np_argsort (init load_ok) p 1
                    \<and> confidence r = round4 ((rank_conf np_argsort p 0 + rank_conf np_argsort p 1) / 2)
                    \<and> original_prediction r = Some (rank_label np_argsort (init load_ok) p 0)
                    \<and> result_note r = Some gap_reason))"
    if srt: "is_argsort np_argsort p" and len: "length p = 22"
  proof -
    from len have ne: "p \<noteq> []" and two: "2 \<le> length p" and three: "3 \<le> length p" by auto
    have "rank_id np_argsort p 0 < 22" using rank_id_less [OF srt, of 0] len by simp
    then have nb: "\<not> known_biased (rank_label np_argsort (init load_ok) p 0)"
      unfolding rank_label_def by (rule init_labels_not_biased)
    show ?thesis
      unfolding apply_bias_mitigation_rank [OF srt ne] detect_bias_patterns_rank [OF three]
        dominance_check_rank [OF srt two]
      using nb by (simp add: from_known_pattern_def gap_reason_def)
  qed
  from A B show ?thesis by blast
qed

theorem known_pattern_never_fires_witness:
  "is_argsort insertion_argsort ([0, 0, 0, 0, 9/10, 1/10, 0, 0, 0, 0, 0, 0, 0, 0, 0, 0, 0, 0, 0, 0, 0, 0 :: real])
   \<and> length ([0, 0, 0, 0, 9/10, 1/10, 0, 0, 0, 0, 0, 0, 0, 0, 0, 0, 0, 0, 0, 0, 0, 0 :: real]) = 22
   \<and> rank_label insertion_argsort (init True) ([0, 0, 0, 0, 9/10, 1/10, 0, 0, 0, 0, 0, 0, 0, 0, 0, 0, 0, 0, 0, 0, 0, 0 :: real]) 0 = ''Cherry Powdery Mildew''
   \<and> \<not> known_biased (rank_label insertion_argsort (init True) ([0, 0, 0, 0, 9/10, 1/10, 0, 0, 0, 0, 0, 0, 0, 0, 0, 0, 0, 0, 0, 0, 0, 0 :: real]) 0)
   \<and> (\<exists>r. apply_bias_mitigation insertion_argsort (init True) ([0, 0, 0, 0, 9/10, 1/10, 0, 0, 0, 0, 0, 0, 0, 0, 0, 0, 0, 0, 0, 0, 0, 0 :: real]) = Inr r
         \<and> status r = ''bias_adjusted''
         \<and> prediction r = ''High Confidence with Uncertainty: Likely Cherry Powdery Mildew but consider Corn Gray Leaf Spot''
         \<and> confidence r = 1/2
         \<and> result_note r = Some gap_reason)"
proof -
  have srt: "is_argsort insertion_argsort ([0, 0, 0, 0, 9/10, 1/10, 0, 0, 0, 0, 0, 0, 0, 0, 0, 0, 0, 0, 0, 0, 0, 0 :: real])"
    by (rule is_argsort_insertion)
  have len: "length ([0, 0, 0, 0, 9/10, 1/10, 0, 0, 0, 0, 0, 0, 0, 0, 0, 0, 0, 0, 0, 0, 0, 0 :: real]) = 22" by simp
  have l0: "rank_label insertion_argsort (init True) ([0, 0, 0, 0, 9/10, 1/10, 0, 0, 0, 0, 0, 0, 0, 0, 0, 0, 0, 0, 0, 0, 0, 0 :: real]) 0 = ''Cherry Powdery Mildew''" by code_simp
  have l1: "rank_label insertion_argsort (init True) ([0, 0, 0, 0, 9/10, 1/10, 0, 0, 0, 0, 0, 0, 0, 0, 0, 0, 0, 0, 0, 0, 0, 0 :: real]) 1 = ''Corn Gray Leaf Spot''" by code_simp
  have c: "round4 ((rank_conf insertion_argsort ([0, 0, 0, 0, 9/10, 1/10, 0, 0, 0, 0, 0, 0, 0, 0, 0, 0, 0, 0, 0, 0, 0, 0 :: real]) 0 + rank_conf insertion_argsort ([0, 0, 0, 0, 9/10, 1/10, 0, 0, 0, 0, 0, 0, 0, 0, 0, 0, 0, 0, 0, 0, 0, 0 :: real]) 1) / 2) = 1/2" by code_simp
  have a: "apply_bias_mitigation insertion_argsort (init True) ([0, 0, 0, 0, 9/10, 1/10, 0, 0, 0, 0, 0, 0, 0, 0, 0, 0, 0, 0, 0, 0, 0, 0 :: real]) =
     Inr \<lparr>prediction = ''High Confidence with Uncertainty: Likely Cherry Powdery Mildew but consider Corn Gray Leaf Spot'',
          confidence = 1/2,
          status = ''bias_adjusted'',
          alternative_predictions = None,
          original_prediction = Some ''Cherry Powdery Mildew'',
          result_note = Some gap_reason\<rparr>"
    by code_simp
  from known_pattern_never_fires
    [where load_ok = True and np_argsort = insertion_argsort and p = "([0, 0, 0, 0, 9/10, 1/10, 0, 0, 0, 0, 0, 0, 0, 0, 0, 0, 0, 0, 0, 0, 0, 0 :: real])"]
    srt len l0 a
  show ?thesis by auto
qed

section \<open>The two low-confidence thresholds\<close>

text \<open>Rounding to four decimals does not cross a multiple of \<open>10\<^sup>-\<^sup>4\<close>.\<close>
lemma round_half_even_mono_int: "of_int n \<le> x \<Longrightarrow> n \<le> round_half_even x"
proof -
  assume "of_int n \<le> x"
  then have "n \<le> \<lfloor>x\<rfloor>" by (simp add: le_floor_iff)
  then show ?thesis by (auto simp: round_half_even_def Let_def)
qed

lemma round4_ge: "0.45 \<le> x \<Longrightarrow> 0.45 \<le> round4 x"
proof -
  assume "0.45 \<le> x"
  then have "of_int 4500 \<le> x * 10000" by simp
  then have "4500 \<le> round_half_even (x * 10000)" by (rule round_half_even_mono_int)
  then have "(4500::real) \<le> of_int (round_half_even (x * 10000))" by linarith
  then show ?thesis by (simp add: round4_def)
qed

lemma round_half_even_le_int: "x \<le> of_int n \<Longrightarrow> round_half_even x \<le> n"
proof -
  assume le: "x \<le> of_int n"
  then have f: "\<lfloor>x\<rfloor> \<le> n" by (simp add: floor_le_iff)
  show ?thesis
  proof (cases "\<lfloor>x\<rfloor> = n")
    case True
    then have "x = of_int \<lfloor>x\<rfloor>" using le by linarith
    then show ?thesis using True by (simp add: round_half_even_def Let_def)
  next
    case False
    then have "\<lfloor>x\<rfloor> + 1 \<le> n" using f by simp
    then show ?thesis using f by (auto simp: round_half_even_def Let_def)
  qed
qed

lemma round4_le: "x \<le> 0.6 \<Longrightarrow> round4 x \<le> 0.6"
proof -
  assume "x \<le> 0.6"
  then have "x * 10000 \<le> of_int 6000" by simp
  then have "round_half_even (x * 10000) \<le> 6000" by (rule round_half_even_le_int)
  then have "of_int (round_half_even (x * 10000)) \<le> (6000::real)" by linarith
  then show ?thesis by (simp add: round4_def)
qed

text \<open>
  Claim C10. For an accepted upload, the endpoint answers every service result whose
  confidence is strictly below 0.45 with the disease \<^verbatim>\<open>Unknown\<close> and the severity
  \<^verbatim>\<open>low\<close>. The service applies its low-confidence rule strictly below 0.6: a
  rank-1 confidence below 0.6 gives the status \<^verbatim>\<open>low_confidence\<close>, one at or above
  0.6 never does. For a rank-1 confidence from 0.45 up to, but not including, 0.6 the
  service reports \<^verbatim>\<open>low_confidence\<close> and the endpoint passes the label of the
  service on instead of \<^verbatim>\<open>Unknown\<close>.
\<close>
theorem threshold_mismatch:
  assumes "content_type img = Some t" "prefix ''image/'' t"
    and "0 < content_size img" "content_size img \<le> 10 * 1024 * 1024"
    and srt: "is_argsort np_argsort p"
  shows "(predict_from_image_bytes np_argsort s image_ok p = RawResult raw \<and> confidence raw < 0.45 \<longrightarrow>
            predict_disease_root np_argsort s img image_ok p =
              Success \<lparr>disease = ''Unknown'', resp_confidence = confidence raw, severity = ''low'',
                       treatment = ''Unable to identify. Please upload clearer image.'',
                       resp_notes = ''Upload clearer image if confidence is low.''\<rparr>)
     \<and> (is_model_loaded s \<and> p \<noteq> [] \<and> 0.45 \<le> rank_conf np_argsort p 0 \<and> rank_conf np_argsort p 0 < 0.6 \<longrightarrow>
          (\<exists>r d. predict_from_image_bytes np_argsort s True p = RawResult r
             \<and> status r = ''low_confidence''
             \<and> predict_disease_root np_argsort s img True p = Success d
             \<and> disease d = ''Uncertain - Low Confidence Detection''
             \<and> disease d \<noteq> ''Unknown''))
     \<and> (p \<noteq> [] \<and> rank_conf np_argsort p 0 < 0.6 \<longrightarrow>
          (\<exists>r. apply_bias_mitigation np_argsort s p = Inr r \<and> status r = ''low_confidence''))
     \<and> (\<not> rank_conf np_argsort p 0 < 0.6 \<longrightarrow>
          (\<forall>r. apply_bias_mitigation np_argsort s p = Inr r \<longrightarrow> status r \<noteq> ''low_confidence''))
     \<and> (3 \<le> length p \<and> 0.6 \<le> rank_conf np_argsort p 0 \<longrightarrow>
          (\<exists>r. apply_bias_mitigation np_argsort s p = Inr r \<and> status r \<noteq> ''low_confidence''))"
proof -
  from assms(2) have tne: "t \<noteq> []" by auto
  have A: "predict_disease_root np_argsort s img image_ok p =
              Success \<lparr>disease = ''Unknown'', resp_confidence = confidence raw, severity = ''low'',
                       treatment = ''Unable to identify. Please upload clearer image.'',
                       resp_notes = ''Upload clearer image if confidence is low.''\<rparr>"
    if "predict_from_image_bytes np_argsort s image_ok p = RawResult raw" "confidence raw < 0.45"
    using that assms(1-4) tne by (simp add: predict_disease_root_def Let_def)
  have B: "\<exists>r d. predict_from_image_bytes np_argsort s True p = RawResult r
             \<and> status r = ''low_confidence''
             \<and> predict_disease_root np_argsort s img True p = Success d
             \<and> disease d = ''Uncertain - Low Confidence Detection''
             \<and> disease d \<noteq> ''Unknown''"
    if l: "is_model_loaded s" and ne: "p \<noteq> []" and lo: "0.45 \<le> rank_conf np_argsort p 0" and hi: "rank_conf np_argsort p 0 < 0.6"
  proof -
    let ?r = "\<lparr>prediction = ''Uncertain - Low Confidence Detection'',
                confidence = round4 (rank_conf np_argsort p 0),
                status = ''low_confidence'',
                alternative_predictions =
                  Some (map (\<lambda>k. (rank_label np_argsort s p k, round4 (rank_conf np_argsort p k)))
                          [1..<min 4 (length p)]),
                original_prediction = None,
                result_note = None\<rparr>"
    have a: "apply_bias_mitigation np_argsort s p = Inr ?r"
      using hi by (simp add: apply_bias_mitigation_rank [OF srt ne])
    have raw: "predict_from_image_bytes np_argsort s True p = RawResult ?r"
      using l by (simp add: predict_from_image_bytes_def predict_disease_def a)
    have c1: "\<not> round4 (rank_conf np_argsort p 0) < 0.45" using round4_ge [OF lo] by simp
    have st: "strip ''Uncertain - Low Confidence Detection'' = ''Uncertain - Low Confidence Detection''"
      by code_simp
    have lo': "lower ''Uncertain - Low Confidence Detection'' = ''uncertain - low confidence detection''"
      by code_simp
    have sev: "\<not> 0.75 \<le> round4 (rank_conf np_argsort p 0)"
      using round4_le [of "rank_conf np_argsort p 0"] hi by simp
    have root: "predict_disease_root np_argsort s img True p =
       Success \<lparr>disease = ''Uncertain - Low Confidence Detection'',
                resp_confidence = round4 (round4 (rank_conf np_argsort p 0)),
                severity = (if 0.6 \<le> round4 (rank_conf np_argsort p 0) then ''medium'' else ''low''),
                treatment = ''Use integrated pest management: monitor, remove infected parts, consider organic or copper-based treatments.'',
                resp_notes = ''Upload clearer image if confidence is low.''\<rparr>"
      unfolding predict_disease_root_def raw
      using assms(1-4) tne c1 sev
      by (simp add: st lo' Let_def treatment_map_def suggest_basic_treatment_def)
    show ?thesis unfolding raw root by simp
  qed
  have C: "\<exists>r. apply_bias_mitigation np_argsort s p = Inr r \<and> status r = ''low_confidence''"
    if ne: "p \<noteq> []" and hi: "rank_conf np_argsort p 0 < 0.6"
    using hi by (simp add: apply_bias_mitigation_rank [OF srt ne])
  have D: "status r \<noteq> ''low_confidence''"
    if hi: "\<not> rank_conf np_argsort p 0 < 0.6" and r: "apply_bias_mitigation np_argsort s p = Inr r"
    for r
  proof (cases "p = []")
    case True
    with r show ?thesis by (simp add: apply_bias_mitigation_def)
  next
    case ne: False
    from r hi show ?thesis
      unfolding apply_bias_mitigation_rank [OF srt ne]
      by (auto split: sum.splits option.splits if_splits)
  qed
  have E: "\<exists>r. apply_bias_mitigation np_argsort s p = Inr r \<and> status r \<noteq> ''low_confidence''"
    if len: "3 \<le> length p" and hi: "0.6 \<le> rank_conf np_argsort p 0"
  proof -
    from len have ne: "p \<noteq> []" and two: "2 \<le> length p" by auto
    from hi show ?thesis
      unfolding apply_bias_mitigation_rank [OF srt ne] detect_bias_patterns_rank [OF len]
        dominance_check_rank [OF srt two]
      by simp
  qed
  from A B C D E show ?thesis by blast
qed

theorem threshold_mismatch_witness:
  "is_argsort insertion_argsort [1/2, 1/4, 1/5, 3/100, 1/50]
   \<and> content_type \<lparr>content_type = Some ''image/png'', content_size = 100\<rparr> = Some ''image/png'' \<and> prefix ''image/'' ''image/png''
   \<and> 0 < content_size \<lparr>content_type = Some ''image/png'', content_size = 100\<rparr> \<and> content_size \<lparr>content_type = Some ''image/png'', content_size = 100\<rparr> \<le> 10 * 1024 * 1024
   \<and> is_model_loaded example_service \<and> [1/2, 1/4, 1/5, 3/100, 1/50 :: real] \<noteq> []
   \<and> 0.45 \<le> rank_conf insertion_argsort [1/2, 1/4, 1/5, 3/100, 1/50] 0 \<and> rank_conf insertion_argsort [1/2, 1/4, 1/5, 3/100, 1/50] 0 < 0.6
   \<and> (\<exists>r d. predict_from_image_bytes insertion_argsort example_service True [1/2, 1/4, 1/5, 3/100, 1/50] = RawResult r
          \<and> status r = ''low_confidence''
          \<and> predict_disease_root insertion_argsort example_service \<lparr>content_type = Some ''image/png'', content_size = 100\<rparr> True [1/2, 1/4, 1/5, 3/100, 1/50] = Success d
          \<and> disease d = ''Uncertain - Low Confidence Detection''
          \<and> disease d \<noteq> ''Unknown'')"
proof -
  have srt: "is_argsort insertion_argsort [1/2, 1/4, 1/5, 3/100, 1/50]"
    by (rule is_argsort_insertion)
  have a: "content_type \<lparr>content_type = Some ''image/png'', content_size = 100\<rparr> = Some ''image/png''" by simp
  have b: "prefix ''image/'' ''image/png''" by simp
  have c: "0 < content_size \<lparr>content_type = Some ''image/png'', content_size = 100\<rparr>" by simp
  have d: "content_size \<lparr>content_type = Some ''image/png'', content_size = 100\<rparr> \<le> 10 * 1024 * 1024" by simp
  have e: "is_model_loaded example_service \<and> [1/2, 1/4, 1/5, 3/100, 1/50 :: real] \<noteq> []
     \<and> 0.45 \<le> rank_conf insertion_argsort [1/2, 1/4, 1/5, 3/100, 1/50] 0 \<and> rank_conf insertion_argsort [1/2, 1/4, 1/5, 3/100, 1/50] 0 < 0.6"
    by code_simp
  from threshold_mismatch [OF a b c d srt, where s = example_service] srt a b c d e
  show ?thesis by blast
qed

end
